theory Spec2Isabelle
  imports Complex_Main
begin

section \<open>Loan lifecycle chaincode\<close>

text \<open>
  The repository holds two chaincode programs over the same ledger interface.
  \<^item> \<open>LoanContract\<close> (shim API): eight operations dispatched by \<open>Invoke\<close> on a
    function name and a list of string arguments; its \<open>Loan\<close> has a collateral and an
    audit history.
  \<^item> \<open>SmartContract\<close> (contract API): \<open>RequestLoan\<close>, \<open>ApproveLoan\<close>, \<open>RepayLoan\<close> and
    \<open>QueryLoan\<close> with typed arguments; its \<open>Loan\<close> has neither collateral nor history.

  Modelling decisions.
  \<^item> \<open>float64\<close> is modelled by \<open>real\<close>: amounts are exact, and NaN, the infinities and
    rounding are outside the model. \<open>int\<close> is modelled by \<open>int\<close> (no arithmetic is done
    on it).
  \<^item> \<open>strconv.ParseFloat\<close>, \<open>strconv.Atoi\<close> and the \<open>%f\<close> verb of \<open>fmt.Sprintf\<close> are
    library code: the operations take them as a parameter \<open>lib\<close>, so every general
    theorem holds for any parser and formatter. \<open>stdlib\<close> is an instance on plain
    decimal literals with which the scenarios are run.
  \<^item> Stored bytes are modelled by what \<open>json.Unmarshal\<close> makes of them: a record
    (\<open>JSON l\<close>) or a decoding failure (\<open>Malformed s\<close>); \<open>json.Marshal\<close> of a record
    \<open>l\<close> is \<open>JSON l\<close>.
  \<^item> The stub is the world state together with the platform's failure behaviour
    (\<open>getErr\<close>, \<open>putErr\<close>: the error \<open>GetState\<close> or \<open>PutState\<close> returns for a key, if
    any). A transaction is committed as soon as it returns; a \<open>PutState\<close> that fails
    writes nothing.
  \<^item> \<open>peer.Response\<close> is \<open>Success payload\<close> (status 200) or \<open>Error message\<close> (status 500).
\<close>

subsection \<open>Library functions\<close>

record golib =
  ParseFloat :: "string \<Rightarrow> real option"
  Atoi :: "string \<Rightarrow> int option"
  Sprintf_f :: "real \<Rightarrow> string"

definition is_digit :: "char \<Rightarrow> bool" where
  "is_digit c = (c \<in> set ''0123456789'')"

definition digit_val :: "char \<Rightarrow> int" where
  "digit_val c = of_char c - 48"

definition parse_digits :: "string \<Rightarrow> int" where
  "parse_digits s = foldl (\<lambda>a c. 10 * a + digit_val c) 0 s"

definition strip_sign :: "string \<Rightarrow> bool \<times> string" where
  "strip_sign s =
     (case s of
        [] \<Rightarrow> (False, s)
      | c # cs \<Rightarrow>
          if c = CHR ''-'' then (True, cs)
          else if c = CHR ''+'' then (False, cs)
          else (False, s))"

text \<open>\<open>strconv.Atoi\<close> on an optional sign and decimal digits, within 64 bits.\<close>

definition decimal_Atoi :: "string \<Rightarrow> int option" where
  "decimal_Atoi s =
     (let (neg, ds) = strip_sign s;
          v = (if neg then - parse_digits ds else parse_digits ds)
      in if ds = [] then None
         else if list_all is_digit ds \<and> - (2 ^ 63) \<le> v \<and> v < 2 ^ 63 then Some v
         else None)"

text \<open>
  \<open>strconv.ParseFloat\<close> on plain decimal literals: an optional sign, digits, and an
  optional point followed by digits, with a digit on at least one side of the point.
  Exponents, hexadecimal literals, \<open>inf\<close> and \<open>nan\<close> are not covered by this instance.
\<close>

definition decimal_ParseFloat :: "string \<Rightarrow> real option" where
  "decimal_ParseFloat s =
     (let (neg, body) = strip_sign s;
          ip = takeWhile is_digit body;
          rest = dropWhile is_digit body;
          fp = (case rest of [] \<Rightarrow> [] | c # cs \<Rightarrow> cs);
          m = of_int (parse_digits ip) + of_int (parse_digits fp) / 10 ^ length fp
      in if ip = [] \<and> fp = [] then None
         else if rest = [] then Some (if neg then - m else m)
         else if hd rest = CHR ''.'' \<and> list_all is_digit fp then Some (if neg then - m else m)
         else None)"

text \<open>The decimal digits of a number that is not negative.\<close>

function decimal :: "int \<Rightarrow> string" where
  "decimal n =
     (if n < 10 then [''0123456789'' ! nat n]
      else decimal (n div 10) @ [''0123456789'' ! nat (n mod 10)])"
  by pat_completeness auto
termination
  by (relation "measure nat") auto

declare decimal.simps [simp del]

definition round_half_even :: "real \<Rightarrow> int" where
  "round_half_even y =
     (let f = \<lfloor>y\<rfloor>; r = y - of_int f in
      if r < 1 / 2 then f
      else if 1 / 2 < r then f + 1
      else if even f then f else f + 1)"

text \<open>The verb \<open>%f\<close>: six digits after the point, the last one rounded half to even.\<close>

definition decimal_Sprintf_f :: "real \<Rightarrow> string" where
  "decimal_Sprintf_f x =
     (let n = round_half_even (\<bar>x\<bar> * 10 ^ 6);
          frac = decimal (n mod 10 ^ 6)
      in (if x < 0 then ''-'' else '''') @ decimal (n div 10 ^ 6) @ ''.'' @
         replicate (6 - length frac) CHR ''0'' @ frac)"

definition stdlib :: golib where
  "stdlib = \<lparr>ParseFloat = decimal_ParseFloat, Atoi = decimal_Atoi,
             Sprintf_f = decimal_Sprintf_f\<rparr>"

subsection \<open>The ledger stub\<close>

datatype 'a bytes = JSON 'a | Malformed string

datatype 'a response = Success "'a bytes option" | Error string

record 'a ChaincodeStub =
  world :: "string \<Rightarrow> 'a bytes option"
  getErr :: "string \<Rightarrow> string option"
  putErr :: "string \<Rightarrow> string option"

definition GetState :: "'a ChaincodeStub \<Rightarrow> string \<Rightarrow> string + 'a bytes option" where
  "GetState stub key =
     (case getErr stub key of
        Some e \<Rightarrow> Inl e
      | None \<Rightarrow> Inr (world stub key))"

definition PutState ::
  "'a ChaincodeStub \<Rightarrow> string \<Rightarrow> 'a bytes \<Rightarrow> string + 'a ChaincodeStub" where
  "PutState stub key val =
     (case putErr stub key of
        Some e \<Rightarrow> Inl e
      | None \<Rightarrow> Inr (stub\<lparr>world := (world stub)(key \<mapsto> val)\<rparr>))"

definition json_Marshal :: "'a \<Rightarrow> string + 'a bytes" where
  "json_Marshal v = Inr (JSON v)"

definition json_Unmarshal :: "'a bytes \<Rightarrow> string + 'a" where
  "json_Unmarshal b =
     (case b of
        JSON v \<Rightarrow> Inr v
      | Malformed s \<Rightarrow> Inl (''invalid character in '' @ s))"

subsection \<open>LoanContract\<close>

record Loan =
  LoanID :: string
  BorrowerID :: string
  LenderID :: string
  Amount :: real
  InterestRate :: real
  Duration :: int
  Status :: string
  DisbursementDate :: string
  RepaymentDue :: real
  RemainingBalance :: real
  Collateral :: string
  Defaulted :: bool
  AuditHistory :: "string list"

text \<open>
  The read that opens every operation but \<open>RequestLoan\<close>: \<open>GetState\<close>, the test
  \<open>err != nil || loanBytes == nil\<close>, then \<open>json.Unmarshal\<close>. The source repeats these
  lines in each operation; \<open>Inl\<close> carries the message the operation answers with.
\<close>

definition load_Loan :: "'a ChaincodeStub \<Rightarrow> string \<Rightarrow> string + 'a" where
  "load_Loan stub loanID =
     (case GetState stub loanID of
        Inl e \<Rightarrow> Inl ''Loan not found''
      | Inr None \<Rightarrow> Inl ''Loan not found''
      | Inr (Some loanBytes) \<Rightarrow>
          (case json_Unmarshal loanBytes of
             Inl e \<Rightarrow> Inl ''Error unmarshalling loan object''
           | Inr loan \<Rightarrow> Inr loan))"

text \<open>
  The write that closes every mutating operation: \<open>json.Marshal\<close>, \<open>PutState\<close>, and
  \<open>shim.Success(nil)\<close>. \<open>what\<close> is the operation's own prefix of the store's error.
\<close>

definition save_Loan ::
  "'a ChaincodeStub \<Rightarrow> string \<Rightarrow> 'a \<Rightarrow> string \<Rightarrow> 'a response \<times> 'a ChaincodeStub" where
  "save_Loan stub loanID loan what =
     (case json_Marshal loan of
        Inl e \<Rightarrow> (Error ''Error marshalling loan object'', stub)
      | Inr loanBytes \<Rightarrow>
          (case PutState stub loanID loanBytes of
             Inl e \<Rightarrow> (Error (what @ e), stub)
           | Inr stub' \<Rightarrow> (Success None, stub')))"

definition LoanContract_Init :: "Loan ChaincodeStub \<Rightarrow> Loan response \<times> Loan ChaincodeStub" where
  "LoanContract_Init stub = (Success None, stub)"

definition LoanContract_RequestLoan ::
  "golib \<Rightarrow> Loan ChaincodeStub \<Rightarrow> string list \<Rightarrow> Loan response \<times> Loan ChaincodeStub" where
  "LoanContract_RequestLoan lib stub args =
     (if length args \<noteq> 4 then (Error ''Incorrect number of arguments. Expected 4'', stub)
      else
        let loanID = args ! 0; borrowerID = args ! 1 in
        case ParseFloat lib (args ! 2) of
          None \<Rightarrow> (Error ''Invalid loan amount'', stub)
        | Some amount \<Rightarrow>
            (case Atoi lib (args ! 3) of
               None \<Rightarrow> (Error ''Invalid loan duration'', stub)
             | Some duration \<Rightarrow>
                 let loan = \<lparr>LoanID = loanID, BorrowerID = borrowerID, LenderID = [],
                             Amount = amount, InterestRate = 0, Duration = duration,
                             Status = ''Pending'', DisbursementDate = [], RepaymentDue = 0,
                             RemainingBalance = amount, Collateral = [], Defaulted = False,
                             AuditHistory = []\<rparr>
                 in save_Loan stub loanID loan ''Failed to request loan: ''))"

definition LoanContract_ApproveLoan ::
  "Loan ChaincodeStub \<Rightarrow> string list \<Rightarrow> Loan response \<times> Loan ChaincodeStub" where
  "LoanContract_ApproveLoan stub args =
     (if length args \<noteq> 2 then (Error ''Incorrect number of arguments. Expected 2'', stub)
      else
        let loanID = args ! 0; lenderID = args ! 1 in
        case load_Loan stub loanID of
          Inl msg \<Rightarrow> (Error msg, stub)
        | Inr loan \<Rightarrow>
            if Status loan \<noteq> ''Pending'' then (Error ''Loan is not in Pending status'', stub)
            else
              let loan = loan\<lparr>LenderID := lenderID\<rparr>;
                  loan = loan\<lparr>Status := ''Approved''\<rparr>;
                  loan = loan\<lparr>AuditHistory := AuditHistory loan @ [''Loan Approved'']\<rparr>
              in save_Loan stub loanID loan ''Failed to approve loan: '')"

definition LoanContract_DisburseLoan ::
  "Loan ChaincodeStub \<Rightarrow> string list \<Rightarrow> Loan response \<times> Loan ChaincodeStub" where
  "LoanContract_DisburseLoan stub args =
     (if length args \<noteq> 2 then (Error ''Incorrect number of arguments. Expected 2'', stub)
      else
        let loanID = args ! 0; disbursementDate = args ! 1 in
        case load_Loan stub loanID of
          Inl msg \<Rightarrow> (Error msg, stub)
        | Inr loan \<Rightarrow>
            if Status loan \<noteq> ''Approved'' then (Error ''Loan is not approved'', stub)
            else
              let loan = loan\<lparr>Status := ''Active''\<rparr>;
                  loan = loan\<lparr>DisbursementDate := disbursementDate\<rparr>;
                  loan = loan\<lparr>AuditHistory := AuditHistory loan @ [''Loan Disbursed'']\<rparr>
              in save_Loan stub loanID loan ''Failed to disburse loan: '')"

definition LoanContract_RepayLoan ::
  "golib \<Rightarrow> Loan ChaincodeStub \<Rightarrow> string list \<Rightarrow> Loan response \<times> Loan ChaincodeStub" where
  "LoanContract_RepayLoan lib stub args =
     (if length args \<noteq> 2 then (Error ''Incorrect number of arguments. Expected 2'', stub)
      else
        let loanID = args ! 0 in
        case ParseFloat lib (args ! 1) of
          None \<Rightarrow> (Error ''Invalid repayment amount'', stub)
        | Some repaymentAmount \<Rightarrow>
            (case load_Loan stub loanID of
               Inl msg \<Rightarrow> (Error msg, stub)
             | Inr loan \<Rightarrow>
                 if Status loan \<noteq> ''Active'' then (Error ''Loan is not active'', stub)
                 else
                   let loan = loan\<lparr>RemainingBalance := RemainingBalance loan - repaymentAmount\<rparr>;
                       loan = (if RemainingBalance loan \<le> 0 then loan\<lparr>Status := ''Repaid''\<rparr>
                               else loan);
                       loan = loan\<lparr>AuditHistory := AuditHistory loan @
                                [''Repayment of '' @ Sprintf_f lib repaymentAmount @ '' made'']\<rparr>
                   in save_Loan stub loanID loan ''Failed to repay loan: ''))"

definition LoanContract_CheckLoanStatus ::
  "Loan ChaincodeStub \<Rightarrow> string list \<Rightarrow> Loan response \<times> Loan ChaincodeStub" where
  "LoanContract_CheckLoanStatus stub args =
     (if length args \<noteq> 1 then (Error ''Incorrect number of arguments. Expected 1'', stub)
      else
        let loanID = args ! 0 in
        case GetState stub loanID of
          Inl e \<Rightarrow> (Error ''Loan not found'', stub)
        | Inr None \<Rightarrow> (Error ''Loan not found'', stub)
        | Inr (Some loanBytes) \<Rightarrow> (Success (Some loanBytes), stub))"

definition LoanContract_MarkAsDefaulted ::
  "Loan ChaincodeStub \<Rightarrow> string list \<Rightarrow> Loan response \<times> Loan ChaincodeStub" where
  "LoanContract_MarkAsDefaulted stub args =
     (if length args \<noteq> 1 then (Error ''Incorrect number of arguments. Expected 1'', stub)
      else
        let loanID = args ! 0 in
        case load_Loan stub loanID of
          Inl msg \<Rightarrow> (Error msg, stub)
        | Inr loan \<Rightarrow>
            if Status loan \<noteq> ''Active'' then (Error ''Loan is not active'', stub)
            else
              let loan = loan\<lparr>Defaulted := True\<rparr>;
                  loan = loan\<lparr>Status := ''Defaulted''\<rparr>;
                  loan = loan\<lparr>AuditHistory := AuditHistory loan @ [''Loan Defaulted'']\<rparr>
              in save_Loan stub loanID loan ''Failed to mark loan as defaulted: '')"

definition LoanContract_AddCollateral ::
  "Loan ChaincodeStub \<Rightarrow> string list \<Rightarrow> Loan response \<times> Loan ChaincodeStub" where
  "LoanContract_AddCollateral stub args =
     (if length args \<noteq> 2 then (Error ''Incorrect number of arguments. Expected 2'', stub)
      else
        let loanID = args ! 0; collateral = args ! 1 in
        case load_Loan stub loanID of
          Inl msg \<Rightarrow> (Error msg, stub)
        | Inr loan \<Rightarrow>
            if Status loan \<noteq> ''Pending'' \<and> Status loan \<noteq> ''Approved''
            then (Error ''Loan cannot accept collateral in the current state'', stub)
            else
              let loan = loan\<lparr>Collateral := collateral\<rparr>;
                  loan = loan\<lparr>AuditHistory := AuditHistory loan @
                           [''Collateral added: '' @ collateral]\<rparr>
              in save_Loan stub loanID loan ''Failed to add collateral: '')"

definition LoanContract_GetLoanHistory ::
  "Loan ChaincodeStub \<Rightarrow> string list \<Rightarrow> Loan response \<times> Loan ChaincodeStub" where
  "LoanContract_GetLoanHistory stub args =
     (if length args \<noteq> 1 then (Error ''Incorrect number of arguments. Expected 1'', stub)
      else
        let loanID = args ! 0 in
        case GetState stub loanID of
          Inl e \<Rightarrow> (Error ''Loan not found'', stub)
        | Inr None \<Rightarrow> (Error ''Loan not found'', stub)
        | Inr (Some loanBytes) \<Rightarrow> (Success (Some loanBytes), stub))"

text \<open>
  \<open>Invoke\<close>: \<open>function\<close> and \<open>args\<close> are what \<open>stub.GetFunctionAndParameters()\<close>
  returns, the transaction's input.
\<close>

definition LoanContract_Invoke ::
  "golib \<Rightarrow> Loan ChaincodeStub \<Rightarrow> string \<Rightarrow> string list \<Rightarrow>
   Loan response \<times> Loan ChaincodeStub" where
  "LoanContract_Invoke lib stub function args =
     (if function = ''RequestLoan'' then LoanContract_RequestLoan lib stub args
      else if function = ''ApproveLoan'' then LoanContract_ApproveLoan stub args
      else if function = ''DisburseLoan'' then LoanContract_DisburseLoan stub args
      else if function = ''RepayLoan'' then LoanContract_RepayLoan lib stub args
      else if function = ''CheckLoanStatus'' then LoanContract_CheckLoanStatus stub args
      else if function = ''MarkAsDefaulted'' then LoanContract_MarkAsDefaulted stub args
      else if function = ''AddCollateral'' then LoanContract_AddCollateral stub args
      else if function = ''GetLoanHistory'' then LoanContract_GetLoanHistory stub args
      else (Error ''Invalid function name'', stub))"

subsection \<open>SmartContract\<close>

text \<open>
  The second program declares its own \<open>Loan\<close>, without collateral and history. Its
  methods take decoded arguments and return a Go \<open>error\<close>: \<open>None\<close> is \<open>nil\<close>.
\<close>

record SC_Loan =
  SC_LoanID :: string
  SC_BorrowerID :: string
  SC_LenderID :: string
  SC_Amount :: real
  SC_InterestRate :: real
  SC_Duration :: int
  SC_Status :: string
  SC_DisbursementDate :: string
  SC_RepaymentDue :: real
  SC_RemainingBalance :: real
  SC_Defaulted :: bool

definition SmartContract_RequestLoan ::
  "SC_Loan ChaincodeStub \<Rightarrow> string \<Rightarrow> string \<Rightarrow> real \<Rightarrow> real \<Rightarrow> int \<Rightarrow>
   string option \<times> SC_Loan ChaincodeStub" where
  "SmartContract_RequestLoan stub loanID borrowerID amount interestRate duration =
     (case GetState stub loanID of
        Inl err \<Rightarrow> (Some (''failed to read loan state: '' @ err), stub)
      | Inr (Some loanAsBytes) \<Rightarrow>
          (Some (''the loan with ID '' @ loanID @ '' already exists''), stub)
      | Inr None \<Rightarrow>
          let loan = \<lparr>SC_LoanID = loanID, SC_BorrowerID = borrowerID, SC_LenderID = [],
                      SC_Amount = amount, SC_InterestRate = interestRate,
                      SC_Duration = duration, SC_Status = ''Pending'',
                      SC_DisbursementDate = [], SC_RepaymentDue = 0,
                      SC_RemainingBalance = amount, SC_Defaulted = False\<rparr>
          in (case json_Marshal loan of
                Inl err \<Rightarrow> (Some (''failed to marshal loan: '' @ err), stub)
              | Inr loanAsBytes \<Rightarrow>
                  (case PutState stub loanID loanAsBytes of
                     Inl err \<Rightarrow> (Some (''failed to create loan: '' @ err), stub)
                   | Inr stub' \<Rightarrow> (None, stub'))))"

definition SmartContract_ApproveLoan ::
  "SC_Loan ChaincodeStub \<Rightarrow> string \<Rightarrow> string \<Rightarrow> string option \<times> SC_Loan ChaincodeStub" where
  "SmartContract_ApproveLoan stub loanID lenderID =
     (case GetState stub loanID of
        Inl err \<Rightarrow> (Some (''failed to read loan state: '' @ err), stub)
      | Inr None \<Rightarrow> (Some (''loan with ID '' @ loanID @ '' not found''), stub)
      | Inr (Some loanAsBytes) \<Rightarrow>
          (case json_Unmarshal loanAsBytes of
             Inl err \<Rightarrow> (Some (''failed to unmarshal loan: '' @ err), stub)
           | Inr loan \<Rightarrow>
               if SC_Status loan \<noteq> ''Pending''
               then (Some (''loan with ID '' @ loanID @ '' is not in Pending status''), stub)
               else
                 let loan = loan\<lparr>SC_LenderID := lenderID\<rparr>;
                     loan = loan\<lparr>SC_Status := ''Approved''\<rparr>
                 in (case json_Marshal loan of
                       Inl err \<Rightarrow> (Some (''failed to marshal loan: '' @ err), stub)
                     | Inr loanAsBytes \<Rightarrow>
                         (case PutState stub loanID loanAsBytes of
                            Inl err \<Rightarrow> (Some (''failed to approve loan: '' @ err), stub)
                          | Inr stub' \<Rightarrow> (None, stub')))))"

definition SmartContract_RepayLoan ::
  "SC_Loan ChaincodeStub \<Rightarrow> string \<Rightarrow> real \<Rightarrow> string option \<times> SC_Loan ChaincodeStub" where
  "SmartContract_RepayLoan stub loanID amount =
     (case GetState stub loanID of
        Inl err \<Rightarrow> (Some (''failed to read loan state: '' @ err), stub)
      | Inr None \<Rightarrow> (Some (''loan with ID '' @ loanID @ '' not found''), stub)
      | Inr (Some loanAsBytes) \<Rightarrow>
          (case json_Unmarshal loanAsBytes of
             Inl err \<Rightarrow> (Some (''failed to unmarshal loan: '' @ err), stub)
           | Inr loan \<Rightarrow>
               if SC_Status loan \<noteq> ''Active''
               then (Some (''loan with ID '' @ loanID @ '' is not in Active status''), stub)
               else
                 let loan = loan\<lparr>SC_RemainingBalance := SC_RemainingBalance loan - amount\<rparr>;
                     loan = (if SC_RemainingBalance loan \<le> 0
                             then loan\<lparr>SC_Status := ''Repaid'', SC_RemainingBalance := 0\<rparr>
                             else loan)
                 in (case json_Marshal loan of
                       Inl err \<Rightarrow> (Some (''failed to marshal loan: '' @ err), stub)
                     | Inr loanAsBytes \<Rightarrow>
                         (case PutState stub loanID loanAsBytes of
                            Inl err \<Rightarrow> (Some (''failed to repay loan: '' @ err), stub)
                          | Inr stub' \<Rightarrow> (None, stub')))))"

definition SmartContract_QueryLoan :: "SC_Loan ChaincodeStub \<Rightarrow> string \<Rightarrow> string + SC_Loan" where
  "SmartContract_QueryLoan stub loanID =
     (case GetState stub loanID of
        Inl err \<Rightarrow> Inl (''failed to read loan state: '' @ err)
      | Inr None \<Rightarrow> Inl (''loan with ID '' @ loanID @ '' not found'')
      | Inr (Some loanAsBytes) \<Rightarrow>
          (case json_Unmarshal loanAsBytes of
             Inl err \<Rightarrow> Inl (''failed to unmarshal loan: '' @ err)
           | Inr loan \<Rightarrow> Inr loan))"

subsection \<open>Running transactions\<close>

text \<open>
  A sequence of transactions against \<open>LoanContract\<close>, each committed before the next
  starts; the responses are kept in order.
\<close>

fun Invoke_all ::
  "golib \<Rightarrow> Loan ChaincodeStub \<Rightarrow> (string \<times> string list) list \<Rightarrow>
   Loan response list \<times> Loan ChaincodeStub" where
  "Invoke_all lib stub [] = ([], stub)"
| "Invoke_all lib stub ((function, args) # txs) =
     (let (r, stub') = LoanContract_Invoke lib stub function args;
          (rs, stub'') = Invoke_all lib stub' txs
      in (r # rs, stub''))"

text \<open>An empty ledger on which the store never fails.\<close>

definition empty_stub :: "'a ChaincodeStub" where
  "empty_stub = \<lparr>world = (\<lambda>k. None), getErr = (\<lambda>k. None), putErr = (\<lambda>k. None)\<rparr>"

text \<open>The stored record under a key, when there is one and it decodes.\<close>

definition stored :: "'a ChaincodeStub \<Rightarrow> string \<Rightarrow> 'a option" where
  "stored stub key =
     (case world stub key of
        Some (JSON l) \<Rightarrow> Some l
      | Some (Malformed s) \<Rightarrow> None
      | None \<Rightarrow> None)"

subsection \<open>Scenarios and properties of a record\<close>

text \<open>A loan of 1000 brought to \<open>Active\<close>, then repaid with 400 and with 700.\<close>

definition repay_400_700 :: "(string \<times> string list) list" where
  "repay_400_700 =
     [(''RequestLoan'', [''L1'', ''B1'', ''1000'', ''12'']),
      (''ApproveLoan'', [''L1'', ''LEN1'']),
      (''DisburseLoan'', [''L1'', ''2024-01-01'']),
      (''RepayLoan'', [''L1'', ''400'']),
      (''RepayLoan'', [''L1'', ''700''])]"

text \<open>A loan of 1000 brought to \<open>Active\<close>, then "repaid" with \<open>-50\<close>.\<close>

definition repay_negative :: "(string \<times> string list) list" where
  "repay_negative =
     [(''RequestLoan'', [''L1'', ''B1'', ''1000'', ''12'']),
      (''ApproveLoan'', [''L1'', ''LEN1'']),
      (''DisburseLoan'', [''L1'', ''2024-01-01'']),
      (''RepayLoan'', [''L1'', ''-50''])]"

text \<open>A loan requested and approved, then requested again under the same key.\<close>

definition request_twice :: "(string \<times> string list) list" where
  "request_twice =
     [(''RequestLoan'', [''L1'', ''B1'', ''1000'', ''12'']),
      (''ApproveLoan'', [''L1'', ''LEN1'']),
      (''RequestLoan'', [''L1'', ''B2'', ''5'', ''1''])]"

text \<open>The end-to-end scenario: request, approve, disburse, repay in full.\<close>

definition end_to_end :: "(string \<times> string list) list" where
  "end_to_end =
     [(''RequestLoan'', [''L1'', ''B1'', ''5000'', ''12'']),
      (''ApproveLoan'', [''L1'', ''LEN1'']),
      (''DisburseLoan'', [''L1'', ''2024-01-01'']),
      (''RepayLoan'', [''L1'', ''5000''])]"

text \<open>A loan that has gathered two history entries, requested again under its key.\<close>

definition request_over_history :: "(string \<times> string list) list" where
  "request_over_history =
     [(''RequestLoan'', [''L1'', ''B1'', ''1000'', ''12'']),
      (''AddCollateral'', [''L1'', ''house'']),
      (''ApproveLoan'', [''L1'', ''LEN1'']),
      (''RequestLoan'', [''L1'', ''B1'', ''1000'', ''12''])]"

text \<open>The end-to-end scenario followed by a new request under the same key.\<close>

definition request_after_repaid :: "(string \<times> string list) list" where
  "request_after_repaid = end_to_end @ [(''RequestLoan'', [''L1'', ''B1'', ''5000'', ''12''])]"

text \<open>A ledger holding one record, and a record of 1000 in a given status.\<close>

definition ledger_with :: "string \<Rightarrow> 'a \<Rightarrow> 'a ChaincodeStub" where
  "ledger_with key loan = empty_stub\<lparr>world := (world empty_stub)(key \<mapsto> JSON loan)\<rparr>"

definition sample_loan :: "string \<Rightarrow> Loan" where
  "sample_loan status =
     \<lparr>LoanID = ''L1'', BorrowerID = ''B1'', LenderID = ''LEN1'', Amount = 1000,
      InterestRate = 0, Duration = 12, Status = status, DisbursementDate = [],
      RepaymentDue = 0, RemainingBalance = 1000, Collateral = [], Defaulted = False,
      AuditHistory = []\<rparr>"

definition SC_sample_loan :: "string \<Rightarrow> SC_Loan" where
  "SC_sample_loan status =
     \<lparr>SC_LoanID = ''L1'', SC_BorrowerID = ''B1'', SC_LenderID = ''LEN1'', SC_Amount = 1000,
      SC_InterestRate = 0, SC_Duration = 12, SC_Status = status, SC_DisbursementDate = [],
      SC_RepaymentDue = 0, SC_RemainingBalance = 1000, SC_Defaulted = False\<rparr>"

text \<open>The balance of a record lies between zero and its principal.\<close>

definition within_principal :: "Loan \<Rightarrow> bool" where
  "within_principal loan =
     (0 \<le> RemainingBalance loan \<and> RemainingBalance loan \<le> Amount loan)"

text \<open>The edges of the lifecycle graph, on the status strings the code compares with.\<close>

definition status_edge :: "string \<Rightarrow> string \<Rightarrow> bool" where
  "status_edge s s' =
     ((s = ''Pending'' \<and> s' = ''Approved'') \<or>
      (s = ''Approved'' \<and> s' = ''Active'') \<or>
      (s = ''Active'' \<and> s' = ''Repaid'') \<or>
      (s = ''Active'' \<and> s' = ''Defaulted''))"

section \<open>Basic facts\<close>

lemma save_Loan_eq:
  "save_Loan stub k l w =
     (case putErr stub k of
        Some e \<Rightarrow> (Error (w @ e), stub)
      | None \<Rightarrow> (Success None, stub\<lparr>world := (world stub)(k \<mapsto> JSON l)\<rparr>))"
  by (simp add: save_Loan_def json_Marshal_def PutState_def split: option.splits)

lemma load_Loan_eq:
  "load_Loan stub k =
     (case getErr stub k of
        Some e \<Rightarrow> Inl ''Loan not found''
      | None \<Rightarrow>
          (case world stub k of
             None \<Rightarrow> Inl ''Loan not found''
           | Some (JSON l) \<Rightarrow> Inr l
           | Some (Malformed s) \<Rightarrow> Inl ''Error unmarshalling loan object''))"
  by (simp add: load_Loan_def GetState_def json_Unmarshal_def split: option.splits bytes.splits)

lemma save_Loan_failure: "save_Loan stub k l w = (Error msg, stub') \<Longrightarrow> stub' = stub"
  by (auto simp: save_Loan_eq split: option.splits)

lemma RequestLoan_failure:
  "LoanContract_RequestLoan lib stub args = (Error msg, stub') \<Longrightarrow> stub' = stub"
  by (auto simp: LoanContract_RequestLoan_def Let_def
      split: if_splits option.splits dest: save_Loan_failure)

lemma ApproveLoan_failure:
  "LoanContract_ApproveLoan stub args = (Error msg, stub') \<Longrightarrow> stub' = stub"
  by (auto simp: LoanContract_ApproveLoan_def Let_def
      split: if_splits sum.splits dest: save_Loan_failure)

lemma DisburseLoan_failure:
  "LoanContract_DisburseLoan stub args = (Error msg, stub') \<Longrightarrow> stub' = stub"
  by (auto simp: LoanContract_DisburseLoan_def Let_def
      split: if_splits sum.splits dest: save_Loan_failure)

lemma RepayLoan_failure:
  "LoanContract_RepayLoan lib stub args = (Error msg, stub') \<Longrightarrow> stub' = stub"
  by (auto simp: LoanContract_RepayLoan_def Let_def
      split: if_splits option.splits sum.splits dest: save_Loan_failure)

lemma MarkAsDefaulted_failure:
  "LoanContract_MarkAsDefaulted stub args = (Error msg, stub') \<Longrightarrow> stub' = stub"
  by (auto simp: LoanContract_MarkAsDefaulted_def Let_def
      split: if_splits sum.splits dest: save_Loan_failure)

lemma AddCollateral_failure:
  "LoanContract_AddCollateral stub args = (Error msg, stub') \<Longrightarrow> stub' = stub"
  by (auto simp: LoanContract_AddCollateral_def Let_def
      split: if_splits sum.splits dest: save_Loan_failure)

lemma CheckLoanStatus_stub: "snd (LoanContract_CheckLoanStatus stub args) = stub"
  by (simp add: LoanContract_CheckLoanStatus_def Let_def split: sum.splits option.splits)

lemma GetLoanHistory_stub: "snd (LoanContract_GetLoanHistory stub args) = stub"
  by (simp add: LoanContract_GetLoanHistory_def Let_def split: sum.splits option.splits)

text \<open>What a successful operation has read and what it has written.\<close>

lemmas op_simps = load_Loan_eq save_Loan_eq Let_def
lemmas op_splits = if_splits option.splits bytes.splits

lemma RequestLoan_success:
  assumes "LoanContract_RequestLoan lib stub args = (Success p, stub')"
  obtains amount duration where
    "length args = 4" "ParseFloat lib (args ! 2) = Some amount"
    "Atoi lib (args ! 3) = Some duration" "putErr stub (args ! 0) = None" "p = None"
    "stub' = stub\<lparr>world := (world stub)(args ! 0 \<mapsto> JSON
       \<lparr>LoanID = args ! 0, BorrowerID = args ! 1, LenderID = [], Amount = amount,
        InterestRate = 0, Duration = duration, Status = ''Pending'', DisbursementDate = [],
        RepaymentDue = 0, RemainingBalance = amount, Collateral = [], Defaulted = False,
        AuditHistory = []\<rparr>)\<rparr>"
  using assms
  by (auto simp: LoanContract_RequestLoan_def op_simps split: op_splits)

lemma ApproveLoan_success:
  assumes "LoanContract_ApproveLoan stub args = (Success p, stub')"
  obtains loan where
    "length args = 2" "getErr stub (args ! 0) = None" "world stub (args ! 0) = Some (JSON loan)"
    "Status loan = ''Pending''" "putErr stub (args ! 0) = None" "p = None"
    "stub' = stub\<lparr>world := (world stub)(args ! 0 \<mapsto> JSON
       (loan\<lparr>LenderID := args ! 1, Status := ''Approved'',
             AuditHistory := AuditHistory loan @ [''Loan Approved'']\<rparr>))\<rparr>"
  using assms
  by (auto simp: LoanContract_ApproveLoan_def op_simps split: op_splits)

lemma DisburseLoan_success:
  assumes "LoanContract_DisburseLoan stub args = (Success p, stub')"
  obtains loan where
    "length args = 2" "getErr stub (args ! 0) = None" "world stub (args ! 0) = Some (JSON loan)"
    "Status loan = ''Approved''" "putErr stub (args ! 0) = None" "p = None"
    "stub' = stub\<lparr>world := (world stub)(args ! 0 \<mapsto> JSON
       (loan\<lparr>Status := ''Active'', DisbursementDate := args ! 1,
             AuditHistory := AuditHistory loan @ [''Loan Disbursed'']\<rparr>))\<rparr>"
  using assms
  by (auto simp: LoanContract_DisburseLoan_def op_simps split: op_splits)

lemma RepayLoan_success:
  assumes "LoanContract_RepayLoan lib stub args = (Success p, stub')"
  obtains loan repaymentAmount where
    "length args = 2" "ParseFloat lib (args ! 1) = Some repaymentAmount"
    "getErr stub (args ! 0) = None" "world stub (args ! 0) = Some (JSON loan)"
    "Status loan = ''Active''" "putErr stub (args ! 0) = None" "p = None"
    "stub' = stub\<lparr>world := (world stub)(args ! 0 \<mapsto> JSON
       (if RemainingBalance loan - repaymentAmount \<le> 0
        then loan\<lparr>RemainingBalance := RemainingBalance loan - repaymentAmount,
                  Status := ''Repaid'',
                  AuditHistory := AuditHistory loan @
                    [''Repayment of '' @ Sprintf_f lib repaymentAmount @ '' made'']\<rparr>
        else loan\<lparr>RemainingBalance := RemainingBalance loan - repaymentAmount,
                  AuditHistory := AuditHistory loan @
                    [''Repayment of '' @ Sprintf_f lib repaymentAmount @ '' made'']\<rparr>))\<rparr>"
  using assms
  by (auto simp: LoanContract_RepayLoan_def op_simps split: op_splits)

lemma MarkAsDefaulted_success:
  assumes "LoanContract_MarkAsDefaulted stub args = (Success p, stub')"
  obtains loan where
    "length args = 1" "getErr stub (args ! 0) = None" "world stub (args ! 0) = Some (JSON loan)"
    "Status loan = ''Active''" "putErr stub (args ! 0) = None" "p = None"
    "stub' = stub\<lparr>world := (world stub)(args ! 0 \<mapsto> JSON
       (loan\<lparr>Defaulted := True, Status := ''Defaulted'',
             AuditHistory := AuditHistory loan @ [''Loan Defaulted'']\<rparr>))\<rparr>"
  using assms
  by (auto simp: LoanContract_MarkAsDefaulted_def op_simps split: op_splits)

lemma AddCollateral_success:
  assumes "LoanContract_AddCollateral stub args = (Success p, stub')"
  obtains loan where
    "length args = 2" "getErr stub (args ! 0) = None" "world stub (args ! 0) = Some (JSON loan)"
    "Status loan = ''Pending'' \<or> Status loan = ''Approved''"
    "putErr stub (args ! 0) = None" "p = None"
    "stub' = stub\<lparr>world := (world stub)(args ! 0 \<mapsto> JSON
       (loan\<lparr>Collateral := args ! 1,
             AuditHistory := AuditHistory loan @ [''Collateral added: '' @ args ! 1]\<rparr>))\<rparr>"
  using assms
  by (auto simp: LoanContract_AddCollateral_def op_simps split: op_splits)

text \<open>What \<open>Invoke\<close> returns is what one of the eight operations returns, or the
  answer to an unknown function name.\<close>

lemma Invoke_cases:
  assumes "LoanContract_Invoke lib stub function args = (r, stub')"
  obtains
      "function = ''RequestLoan''" "LoanContract_RequestLoan lib stub args = (r, stub')"
    | "function = ''ApproveLoan''" "LoanContract_ApproveLoan stub args = (r, stub')"
    | "function = ''DisburseLoan''" "LoanContract_DisburseLoan stub args = (r, stub')"
    | "function = ''RepayLoan''" "LoanContract_RepayLoan lib stub args = (r, stub')"
    | "function = ''CheckLoanStatus''" "LoanContract_CheckLoanStatus stub args = (r, stub')"
    | "function = ''MarkAsDefaulted''" "LoanContract_MarkAsDefaulted stub args = (r, stub')"
    | "function = ''AddCollateral''" "LoanContract_AddCollateral stub args = (r, stub')"
    | "function = ''GetLoanHistory''" "LoanContract_GetLoanHistory stub args = (r, stub')"
    | "r = Error ''Invalid function name''" "stub' = stub"
  using assms unfolding LoanContract_Invoke_def by (simp split: if_splits)

section \<open>Failures write nothing\<close>

text \<open>An operation that answers with an error returns the stub it was given.\<close>

lemma Invoke_failure:
  assumes "LoanContract_Invoke lib stub function args = (Error msg, stub')"
  shows "stub' = stub"
  using assms
proof (cases rule: Invoke_cases)
  case 1 from RequestLoan_failure [OF 1(2)] show ?thesis .
next
  case 2 from ApproveLoan_failure [OF 2(2)] show ?thesis .
next
  case 3 from DisburseLoan_failure [OF 3(2)] show ?thesis .
next
  case 4 from RepayLoan_failure [OF 4(2)] show ?thesis .
next
  case 5 then show ?thesis using CheckLoanStatus_stub [of stub args] by simp
next
  case 6 from MarkAsDefaulted_failure [OF 6(2)] show ?thesis .
next
  case 7 from AddCollateral_failure [OF 7(2)] show ?thesis .
next
  case 8 then show ?thesis using GetLoanHistory_stub [of stub args] by simp
next
  case 9 then show ?thesis by simp
qed

text \<open>
  Claim C5. Whenever an operation of \<open>LoanContract\<close> answers with an error (wrong
  argument count, a number that does not parse, a missing or undecodable loan, a wrong
  status, or a store that refuses the write), the stub it leaves is the stub it was
  given: every check precedes the only write, which is the last step of the operation.
\<close>

theorem failure_leaves_ledger_untouched:
  assumes "LoanContract_Invoke lib stub function args = (Error msg, stub')"
  shows "stub' = stub"
  using assms by (rule Invoke_failure)

theorem failure_leaves_ledger_untouched_witness:
  "fst (LoanContract_Invoke stdlib empty_stub ''ApproveLoan'' [''L1'', ''LEN1'']) =
     Error ''Loan not found'' \<and>
   snd (LoanContract_Invoke stdlib empty_stub ''ApproveLoan'' [''L1'', ''LEN1'']) =
     (empty_stub :: Loan ChaincodeStub)"
proof -
  have r: "fst (LoanContract_Invoke stdlib empty_stub ''ApproveLoan'' [''L1'', ''LEN1'']) =
      Error ''Loan not found''"
    by (simp add: LoanContract_Invoke_def LoanContract_ApproveLoan_def load_Loan_eq
        empty_stub_def)
  then have "LoanContract_Invoke stdlib empty_stub ''ApproveLoan'' [''L1'', ''LEN1''] =
      (Error ''Loan not found'',
       snd (LoanContract_Invoke stdlib empty_stub ''ApproveLoan'' [''L1'', ''LEN1'']))"
    by (simp add: prod_eq_iff)
  from failure_leaves_ledger_untouched [OF this] r show ?thesis by simp
qed

section \<open>The two read operations\<close>

text \<open>
  Claim C10. \<open>CheckLoanStatus\<close> and \<open>GetLoanHistory\<close> are the same function of the stub
  and the arguments: both return the stored bytes as they are when \<open>GetState\<close> finds
  them, both answer \<open>Loan not found\<close> when it does not, and both leave the stub as it
  was.
\<close>

theorem CheckLoanStatus_eq_GetLoanHistory:
  "LoanContract_CheckLoanStatus stub args = LoanContract_GetLoanHistory stub args \<and>
   snd (LoanContract_CheckLoanStatus stub args) = stub \<and>
   snd (LoanContract_GetLoanHistory stub args) = stub \<and>
   fst (LoanContract_CheckLoanStatus stub [loanID]) =
     (case GetState stub loanID of
        Inr (Some loanBytes) \<Rightarrow> Success (Some loanBytes)
      | Inr None \<Rightarrow> Error ''Loan not found''
      | Inl e \<Rightarrow> Error ''Loan not found'')"
  by (simp add: LoanContract_CheckLoanStatus_def LoanContract_GetLoanHistory_def
      split: sum.splits option.splits)

section \<open>The library instance on the literals of the scenarios\<close>

lemmas parse_defs = stdlib_def decimal_ParseFloat_def decimal_Atoi_def strip_sign_def
  is_digit_def parse_digits_def digit_val_def

lemma ParseFloat_1000: "ParseFloat stdlib ''1000'' = Some 1000" by (simp add: parse_defs)
lemma ParseFloat_400: "ParseFloat stdlib ''400'' = Some 400" by (simp add: parse_defs)
lemma ParseFloat_700: "ParseFloat stdlib ''700'' = Some 700" by (simp add: parse_defs)
lemma ParseFloat_5000: "ParseFloat stdlib ''5000'' = Some 5000" by (simp add: parse_defs)
lemma ParseFloat_5: "ParseFloat stdlib ''5'' = Some 5" by (simp add: parse_defs)
lemma ParseFloat_minus_50: "ParseFloat stdlib ''-50'' = Some (- 50)" by (simp add: parse_defs)
lemma Atoi_12: "Atoi stdlib ''12'' = Some 12" by (simp add: parse_defs)
lemma Atoi_1: "Atoi stdlib ''1'' = Some 1" by (simp add: parse_defs)

lemma round_half_even_of_int: "round_half_even (of_int n) = n"
  by (simp add: round_half_even_def)

lemma replicate_5: "replicate 5 c = [c, c, c, c, c]"
  by (simp add: eval_nat_numeral)

lemma decimal_0: "decimal 0 = ''0''" by (simp add: decimal.simps)
lemma decimal_50: "decimal 50 = ''50''" by (simp add: decimal.simps)
lemma decimal_400: "decimal 400 = ''400''" by (simp add: decimal.simps)
lemma decimal_700: "decimal 700 = ''700''" by (simp add: decimal.simps)
lemma decimal_5000: "decimal 5000 = ''5000''" by (simp add: decimal.simps)

lemma Sprintf_f_400: "Sprintf_f stdlib 400 = ''400.000000''"
  using round_half_even_of_int [of 400000000]
  by (simp add: stdlib_def decimal_Sprintf_f_def replicate_5 decimal_0 decimal_400)

lemma Sprintf_f_700: "Sprintf_f stdlib 700 = ''700.000000''"
  using round_half_even_of_int [of 700000000]
  by (simp add: stdlib_def decimal_Sprintf_f_def replicate_5 decimal_0 decimal_700)

lemma Sprintf_f_5000: "Sprintf_f stdlib 5000 = ''5000.000000''"
  using round_half_even_of_int [of 5000000000]
  by (simp add: stdlib_def decimal_Sprintf_f_def replicate_5 decimal_0 decimal_5000)

lemma Sprintf_f_minus_50: "Sprintf_f stdlib (- 50) = ''-50.000000''"
  using round_half_even_of_int [of 50000000]
  by (simp add: stdlib_def decimal_Sprintf_f_def replicate_5 decimal_0 decimal_50)

lemmas run_simps =
  LoanContract_Invoke_def LoanContract_RequestLoan_def
  LoanContract_ApproveLoan_def LoanContract_DisburseLoan_def LoanContract_RepayLoan_def
  load_Loan_eq save_Loan_eq empty_stub_def stored_def Let_def
  ParseFloat_1000 ParseFloat_400 ParseFloat_700 ParseFloat_5000 ParseFloat_5
  ParseFloat_minus_50 Atoi_12 Atoi_1
  Sprintf_f_400 Sprintf_f_700 Sprintf_f_5000 Sprintf_f_minus_50

section \<open>Repayment\<close>

text \<open>
  What a successful \<open>LoanContract.RepayLoan\<close> stores: the balance less the repayment,
  with no floor at zero; the status \<open>Repaid\<close> exactly when that difference is not
  positive; one more history entry.
\<close>

lemma LoanContract_RepayLoan_stores:
  assumes "LoanContract_RepayLoan lib stub [loanID, a] = (Success p, stub')"
      and "stored stub loanID = Some loan"
  shows "\<exists>r loan'. ParseFloat lib a = Some r \<and> stored stub' loanID = Some loan' \<and>
           RemainingBalance loan' = RemainingBalance loan - r \<and>
           Amount loan' = Amount loan \<and>
           Status loan' = (if RemainingBalance loan - r \<le> 0 then ''Repaid'' else ''Active'')"
  using assms(1)
proof (cases rule: RepayLoan_success)
  case (1 l r)
  with assms(2) have "l = loan" by (simp add: stored_def)
  with 1 show ?thesis by (auto simp: stored_def)
qed

text \<open>
  What a successful \<open>SmartContract.RepayLoan\<close> stores: the balance less the repayment,
  and when that is not positive, the balance zero and the status \<open>Repaid\<close>.
\<close>

lemma SmartContract_RepayLoan_stores:
  assumes "SmartContract_RepayLoan stub loanID r = (None, stub')"
      and "stored stub loanID = Some loan"
  shows "SC_Status loan = ''Active'' \<and>
         stored stub' loanID =
           Some (if SC_RemainingBalance loan - r \<le> 0
                 then loan\<lparr>SC_Status := ''Repaid'', SC_RemainingBalance := 0\<rparr>
                 else loan\<lparr>SC_RemainingBalance := SC_RemainingBalance loan - r\<rparr>)"
  using assms
  by (auto simp: SmartContract_RepayLoan_def GetState_def PutState_def json_Marshal_def
      json_Unmarshal_def stored_def Let_def split: op_splits)

lemma SmartContract_RepayLoan_400_700:
  "fst (SmartContract_RepayLoan (ledger_with ''L1'' (SC_sample_loan ''Active'')) ''L1'' 400) = None \<and>
   fst (SmartContract_RepayLoan
          (snd (SmartContract_RepayLoan (ledger_with ''L1'' (SC_sample_loan ''Active'')) ''L1'' 400))
          ''L1'' 700) = None \<and>
   stored (snd (SmartContract_RepayLoan
          (snd (SmartContract_RepayLoan (ledger_with ''L1'' (SC_sample_loan ''Active'')) ''L1'' 400))
          ''L1'' 700)) ''L1'' =
     Some ((SC_sample_loan ''Repaid'')\<lparr>SC_RemainingBalance := 0\<rparr>)"
  by (simp add: SmartContract_RepayLoan_def GetState_def PutState_def json_Marshal_def
      json_Unmarshal_def stored_def Let_def ledger_with_def empty_stub_def SC_sample_loan_def)

text \<open>
  Claim C1, at the input of the claim's own example. \<open>LoanContract.RepayLoan\<close> on a loan
  of 1000, repaid with 400 and then with 700: all five transactions succeed, the status
  is \<open>Repaid\<close>, and the stored balance is \<open>-100\<close>, not \<open>0\<close>.
\<close>

theorem LoanContract_RepayLoan_400_700:
  "fst (Invoke_all stdlib empty_stub repay_400_700) =
     [Success None, Success None, Success None, Success None, Success None] \<and>
   stored (snd (Invoke_all stdlib empty_stub repay_400_700)) ''L1'' =
     Some \<lparr>LoanID = ''L1'', BorrowerID = ''B1'', LenderID = ''LEN1'', Amount = 1000,
           InterestRate = 0, Duration = 12, Status = ''Repaid'',
           DisbursementDate = ''2024-01-01'', RepaymentDue = 0,
           RemainingBalance = - 100, Collateral = [], Defaulted = False,
           AuditHistory = [''Loan Approved'', ''Loan Disbursed'',
             ''Repayment of 400.000000 made'', ''Repayment of 700.000000 made'']\<rparr>"
  by (simp add: repay_400_700_def run_simps)

section \<open>Creation\<close>

text \<open>
  \<open>SmartContract.RequestLoan\<close> reads the key first: on a key that holds bytes it
  answers "already exists" and writes nothing; on a free key it stores a \<open>Pending\<close>
  record whose balance is the amount.
\<close>

lemma SmartContract_RequestLoan_existing:
  assumes "GetState stub loanID = Inr (Some loanAsBytes)"
  shows "SmartContract_RequestLoan stub loanID borrowerID amount interestRate duration =
           (Some (''the loan with ID '' @ loanID @ '' already exists''), stub)"
  using assms by (simp add: SmartContract_RequestLoan_def)

lemma SmartContract_RequestLoan_success:
  assumes "SmartContract_RequestLoan stub loanID borrowerID amount interestRate duration =
             (None, stub')"
  shows "world stub loanID = None \<and>
         stored stub' loanID =
           Some \<lparr>SC_LoanID = loanID, SC_BorrowerID = borrowerID, SC_LenderID = [],
                 SC_Amount = amount, SC_InterestRate = interestRate, SC_Duration = duration,
                 SC_Status = ''Pending'', SC_DisbursementDate = [], SC_RepaymentDue = 0,
                 SC_RemainingBalance = amount, SC_Defaulted = False\<rparr>"
  using assms
  by (auto simp: SmartContract_RequestLoan_def GetState_def PutState_def json_Marshal_def
      stored_def Let_def split: op_splits)

text \<open>
  \<open>LoanContract.RequestLoan\<close> never reads the key: when it succeeds, the record it
  stores replaces whatever the key held.
\<close>

lemma LoanContract_RequestLoan_overwrites:
  assumes "LoanContract_RequestLoan lib stub args = (Success p, stub')"
  shows "\<exists>loan'. stored stub' (args ! 0) = Some loan' \<and> Status loan' = ''Pending'' \<and>
           RemainingBalance loan' = Amount loan' \<and> AuditHistory loan' = [] \<and>
           LenderID loan' = []"
  using assms
  by (cases rule: RequestLoan_success) (simp add: stored_def)

text \<open>
  Claim C2, at a ledger where the key is taken. A loan is requested and approved; a
  second \<open>RequestLoan\<close> under the same key succeeds, and the approved record is gone:
  the key now holds a new \<open>Pending\<close> loan of the second borrower.
\<close>

theorem LoanContract_RequestLoan_duplicate:
  "fst (Invoke_all stdlib empty_stub request_twice) =
     [Success None, Success None, Success None] \<and>
   stored (snd (Invoke_all stdlib empty_stub (butlast request_twice))) ''L1'' =
     Some \<lparr>LoanID = ''L1'', BorrowerID = ''B1'', LenderID = ''LEN1'', Amount = 1000,
           InterestRate = 0, Duration = 12, Status = ''Approved'',
           DisbursementDate = [], RepaymentDue = 0,
           RemainingBalance = 1000, Collateral = [], Defaulted = False,
           AuditHistory = [''Loan Approved'']\<rparr> \<and>
   stored (snd (Invoke_all stdlib empty_stub request_twice)) ''L1'' =
     Some \<lparr>LoanID = ''L1'', BorrowerID = ''B2'', LenderID = [], Amount = 5,
           InterestRate = 0, Duration = 1, Status = ''Pending'',
           DisbursementDate = [], RepaymentDue = 0,
           RemainingBalance = 5, Collateral = [], Defaulted = False,
           AuditHistory = []\<rparr>"
  by (simp add: request_twice_def run_simps)

section \<open>The lifecycle graph\<close>

text \<open>
  Every successful operation of \<open>LoanContract\<close> other than \<open>RequestLoan\<close> leaves the
  status of every stored record as it was or moves it along an edge of the graph.
\<close>

lemma world_upd_stored:
  "stored (stub\<lparr>world := (world stub)(k \<mapsto> JSON l)\<rparr>) k' =
     (if k' = k then Some l else stored stub k')"
  by (simp add: stored_def)

lemma status_follows_edges:
  assumes "LoanContract_Invoke lib stub function args = (Success p, stub')"
      and "function \<noteq> ''RequestLoan''"
      and "stored stub key = Some loan"
  shows "\<exists>loan'. stored stub' key = Some loan' \<and>
           (Status loan' = Status loan \<or> status_edge (Status loan) (Status loan'))"
  using assms(1)
proof (cases rule: Invoke_cases)
  case 1 with assms(2) show ?thesis by simp
next
  case 2
  from 2(2) show ?thesis
  proof (cases rule: ApproveLoan_success)
    case (1 l)
    with assms(3) show ?thesis
      by (cases "key = args ! 0") (auto simp: world_upd_stored stored_def status_edge_def)
  qed
next
  case 3
  from 3(2) show ?thesis
  proof (cases rule: DisburseLoan_success)
    case (1 l)
    with assms(3) show ?thesis
      by (cases "key = args ! 0") (auto simp: world_upd_stored stored_def status_edge_def)
  qed
next
  case 4
  from 4(2) show ?thesis
  proof (cases rule: RepayLoan_success)
    case (1 l r)
    with assms(3) show ?thesis
      by (cases "key = args ! 0") (auto simp: world_upd_stored stored_def status_edge_def)
  qed
next
  case 5
  with CheckLoanStatus_stub [of stub args] assms(3) show ?thesis by simp
next
  case 6
  from 6(2) show ?thesis
  proof (cases rule: MarkAsDefaulted_success)
    case (1 l)
    with assms(3) show ?thesis
      by (cases "key = args ! 0") (auto simp: world_upd_stored stored_def status_edge_def)
  qed
next
  case 7
  from 7(2) show ?thesis
  proof (cases rule: AddCollateral_success)
    case (1 l)
    with assms(3) show ?thesis
      by (cases "key = args ! 0") (auto simp: world_upd_stored stored_def status_edge_def)
  qed
next
  case 8
  with GetLoanHistory_stub [of stub args] assms(3) show ?thesis by simp
next
  case 9 then show ?thesis by simp
qed

text \<open>
  Claim C4, at a loan that has been repaid. The end-to-end scenario leaves the loan
  \<open>Repaid\<close>; a \<open>RequestLoan\<close> under the same key then succeeds and the status is
  \<open>Pending\<close> again.
\<close>

theorem LoanContract_RequestLoan_after_Repaid:
  "map_option Status (stored (snd (Invoke_all stdlib empty_stub end_to_end)) ''L1'') =
     Some ''Repaid'' \<and>
   fst (Invoke_all stdlib empty_stub request_after_repaid) =
     [Success None, Success None, Success None, Success None, Success None] \<and>
   map_option Status (stored (snd (Invoke_all stdlib empty_stub request_after_repaid)) ''L1'') =
     Some ''Pending''"
  by (simp add: request_after_repaid_def end_to_end_def run_simps)

section \<open>The balance and the principal\<close>

text \<open>
  Claim C3 as stated fails: a repayment of \<open>-50\<close> on an active loan of 1000 succeeds
  and leaves the balance 1050, above the principal.
\<close>

theorem negative_repayment_exceeds_principal:
  "fst (Invoke_all stdlib empty_stub repay_negative) =
     [Success None, Success None, Success None, Success None] \<and>
   map_option Status (stored (snd (Invoke_all stdlib empty_stub repay_negative)) ''L1'') =
     Some ''Active'' \<and>
   map_option RemainingBalance (stored (snd (Invoke_all stdlib empty_stub repay_negative)) ''L1'') =
     Some 1050 \<and>
   map_option Amount (stored (snd (Invoke_all stdlib empty_stub repay_negative)) ''L1'') =
     Some 1000 \<and>
   map_option within_principal (stored (snd (Invoke_all stdlib empty_stub repay_negative)) ''L1'') =
     Some False"
  by (simp add: repay_negative_def within_principal_def run_simps)

text \<open>One transaction keeps every stored balance at or below its principal, when the
  repayment it carries, if any, is not negative.\<close>

lemma stored_of_world: "world stub k = Some (JSON l) \<Longrightarrow> stored stub k = Some l"
  by (simp add: stored_def)

lemma write_keeps:
  assumes "\<forall>k l. stored stub k = Some l \<longrightarrow> P l" and "P l'"
  shows "\<forall>k l. stored (stub\<lparr>world := (world stub)(k0 \<mapsto> JSON l')\<rparr>) k = Some l \<longrightarrow> P l"
  using assms by (simp add: world_upd_stored)

lemma Invoke_keeps_upper_bound:
  assumes inv: "\<forall>k l. stored stub k = Some l \<longrightarrow> RemainingBalance l \<le> Amount l"
      and nonneg: "f = ''RepayLoan'' \<longrightarrow>
                     (\<forall>r. ParseFloat lib (args ! 1) = Some r \<longrightarrow> 0 \<le> r)"
  shows "\<forall>k l. stored (snd (LoanContract_Invoke lib stub f args)) k = Some l \<longrightarrow>
           RemainingBalance l \<le> Amount l"
proof (cases "LoanContract_Invoke lib stub f args")
  case (Pair res stub')
  show ?thesis
  proof (cases res)
    case (Error msg)
    with Pair have "LoanContract_Invoke lib stub f args = (Error msg, stub')"
      by simp
    then have "stub' = stub" by (rule Invoke_failure)
    with Pair inv show ?thesis by simp
  next
    case (Success p)
    with Pair have run: "LoanContract_Invoke lib stub f args = (Success p, stub')"
      by simp
    have "\<forall>k l. stored stub' k = Some l \<longrightarrow> RemainingBalance l \<le> Amount l"
      using run
    proof (cases rule: Invoke_cases)
      case 1
      from 1(2) show ?thesis
      proof (cases rule: RequestLoan_success)
        case (1 amount duration)
        show ?thesis unfolding 1(6) by (rule write_keeps [OF inv]) simp
      qed
    next
      case 2
      from 2(2) show ?thesis
      proof (cases rule: ApproveLoan_success)
        case (1 l)
        from inv stored_of_world [OF 1(3)] have "RemainingBalance l \<le> Amount l" by blast
        then show ?thesis unfolding 1(7) by (intro write_keeps [OF inv]) simp
      qed
    next
      case 3
      from 3(2) show ?thesis
      proof (cases rule: DisburseLoan_success)
        case (1 l)
        from inv stored_of_world [OF 1(3)] have "RemainingBalance l \<le> Amount l" by blast
        then show ?thesis unfolding 1(7) by (intro write_keeps [OF inv]) simp
      qed
    next
      case 4
      from 4(2) show ?thesis
      proof (cases rule: RepayLoan_success)
        case (1 l r)
        from 1(2) 4(1) nonneg have "0 \<le> r" by simp
        moreover from inv stored_of_world [OF 1(4)] have "RemainingBalance l \<le> Amount l"
          by blast
        ultimately show ?thesis unfolding 1(8) by (intro write_keeps [OF inv]) simp
      qed
    next
      case 5
      with CheckLoanStatus_stub [of stub args] inv show ?thesis by simp
    next
      case 6
      from 6(2) show ?thesis
      proof (cases rule: MarkAsDefaulted_success)
        case (1 l)
        from inv stored_of_world [OF 1(3)] have "RemainingBalance l \<le> Amount l" by blast
        then show ?thesis unfolding 1(7) by (intro write_keeps [OF inv]) simp
      qed
    next
      case 7
      from 7(2) show ?thesis
      proof (cases rule: AddCollateral_success)
        case (1 l)
        from inv stored_of_world [OF 1(3)] have "RemainingBalance l \<le> Amount l" by blast
        then show ?thesis unfolding 1(7) by (intro write_keeps [OF inv]) simp
      qed
    next
      case 8
      with GetLoanHistory_stub [of stub args] inv show ?thesis by simp
    next
      case 9 with inv show ?thesis by simp
    qed
    with Pair show ?thesis by simp
  qed
qed

text \<open>
  Claim C3, amended. On a ledger where every stored balance is at most its principal
  (as it is at creation, where the balance is the amount), after any sequence of
  transactions whose repayment amounts are not negative, every stored balance is still
  at most its principal, whether the transactions succeeded or failed.
\<close>

theorem balance_never_exceeds_principal:
  assumes "\<forall>k l. stored stub k = Some l \<longrightarrow> RemainingBalance l \<le> Amount l"
      and "\<forall>tx \<in> set txs. fst tx = ''RepayLoan'' \<longrightarrow>
             (\<forall>r. ParseFloat lib (snd tx ! 1) = Some r \<longrightarrow> 0 \<le> r)"
  shows "\<forall>k l. stored (snd (Invoke_all lib stub txs)) k = Some l \<longrightarrow>
           RemainingBalance l \<le> Amount l"
  using assms
proof (induction txs arbitrary: stub)
  case Nil
  then show ?case by simp
next
  case (Cons tx txs)
  obtain f args where tx: "tx = (f, args)" by (cases tx)
  let ?stub' = "snd (LoanContract_Invoke lib stub f args)"
  from Cons.prems(2) tx have "f = ''RepayLoan'' \<longrightarrow>
      (\<forall>r. ParseFloat lib (args ! 1) = Some r \<longrightarrow> 0 \<le> r)"
    by simp
  with Cons.prems(1) have "\<forall>k l. stored ?stub' k = Some l \<longrightarrow> RemainingBalance l \<le> Amount l"
    by (rule Invoke_keeps_upper_bound)
  moreover from Cons.prems(2) have "\<forall>tx \<in> set txs. fst tx = ''RepayLoan'' \<longrightarrow>
      (\<forall>r. ParseFloat lib (snd tx ! 1) = Some r \<longrightarrow> 0 \<le> r)"
    by simp
  ultimately have "\<forall>k l. stored (snd (Invoke_all lib ?stub' txs)) k = Some l \<longrightarrow>
      RemainingBalance l \<le> Amount l"
    by (rule Cons.IH)
  then show ?case
    by (simp add: tx split_beta Let_def)
qed

theorem balance_never_exceeds_principal_witness:
  "map_option RemainingBalance (stored (snd (Invoke_all stdlib empty_stub repay_400_700)) ''L1'') =
     Some (- 100) \<and>
   map_option Amount (stored (snd (Invoke_all stdlib empty_stub repay_400_700)) ''L1'') =
     Some 1000 \<and>
   map_option (\<lambda>l. RemainingBalance l \<le> Amount l)
     (stored (snd (Invoke_all stdlib empty_stub repay_400_700)) ''L1'') = Some True"
proof -
  have a: "\<forall>k l. stored (empty_stub :: Loan ChaincodeStub) k = Some l \<longrightarrow>
      RemainingBalance l \<le> Amount l"
    by (simp add: stored_def empty_stub_def)
  have b: "\<forall>tx \<in> set repay_400_700. fst tx = ''RepayLoan'' \<longrightarrow>
      (\<forall>r. ParseFloat stdlib (snd tx ! 1) = Some r \<longrightarrow> 0 \<le> r)"
    by (simp add: repay_400_700_def ParseFloat_400 ParseFloat_700)
  have c: "\<exists>l. stored (snd (Invoke_all stdlib empty_stub repay_400_700)) ''L1'' = Some l \<and>
      RemainingBalance l = - 100 \<and> Amount l = 1000"
    by (simp add: repay_400_700_def run_simps)
  from balance_never_exceeds_principal [OF a b] c show ?thesis
    by auto
qed

text \<open>
  \<open>SmartContract.RepayLoan\<close>, with its floor at zero, keeps a balance that was within
  zero and the principal there, for a repayment that is not negative.
\<close>

lemma SmartContract_RepayLoan_within_principal:
  assumes "SmartContract_RepayLoan stub loanID r = (None, stub')"
      and "stored stub loanID = Some loan"
      and "0 \<le> SC_RemainingBalance loan" "SC_RemainingBalance loan \<le> SC_Amount loan"
      and "0 \<le> r"
  shows "\<exists>loan'. stored stub' loanID = Some loan' \<and> SC_Amount loan' = SC_Amount loan \<and>
           0 \<le> SC_RemainingBalance loan' \<and> SC_RemainingBalance loan' \<le> SC_Amount loan'"
  using SmartContract_RepayLoan_stores [OF assms(1,2)] assms(3-5) by auto

section \<open>The audit history\<close>

text \<open>
  Each successful \<open>ApproveLoan\<close>, \<open>DisburseLoan\<close>, \<open>RepayLoan\<close>, \<open>MarkAsDefaulted\<close> and
  \<open>AddCollateral\<close> rewrites the record under its key with its history extended by
  exactly one entry at the end (so the earlier entries stay, in order) and touches no
  other key.
\<close>

lemma one_entry_appended:
  assumes "f \<in> set [''ApproveLoan'', ''DisburseLoan'', ''RepayLoan'', ''MarkAsDefaulted'',
             ''AddCollateral'']"
      and run: "LoanContract_Invoke lib stub f args = (Success p, stub')"
  shows "\<exists>loan loan' entry.
           stored stub (args ! 0) = Some loan \<and> stored stub' (args ! 0) = Some loan' \<and>
           AuditHistory loan' = AuditHistory loan @ [entry] \<and>
           (\<forall>k. k \<noteq> args ! 0 \<longrightarrow> world stub' k = world stub k)"
proof -
  from assms(1) have f: "f \<noteq> ''RequestLoan''" "f \<noteq> ''CheckLoanStatus''"
      "f \<noteq> ''GetLoanHistory''"
    by auto
  from run show ?thesis
  proof (cases rule: Invoke_cases)
    case 1 with f show ?thesis by simp
  next
    case 2
    from 2(2) show ?thesis
      by (cases rule: ApproveLoan_success) (simp add: stored_def)
  next
    case 3
    from 3(2) show ?thesis
      by (cases rule: DisburseLoan_success) (simp add: stored_def)
  next
    case 4
    from 4(2) show ?thesis
      by (cases rule: RepayLoan_success) (simp add: stored_def)
  next
    case 5 with f show ?thesis by simp
  next
    case 6
    from 6(2) show ?thesis
      by (cases rule: MarkAsDefaulted_success) (simp add: stored_def)
  next
    case 7
    from 7(2) show ?thesis
      by (cases rule: AddCollateral_success) (simp add: stored_def)
  next
    case 8 with f show ?thesis by simp
  next
    case 9 then show ?thesis by simp
  qed
qed

text \<open>
  Each of the five does succeed, and writes the entry named here, on a loan in the
  status it asks for when the store accepts the write.
\<close>

lemma entry_written:
  assumes "GetState stub loanID = Inr (Some (JSON loan))" and "putErr stub loanID = None"
  shows "Status loan = ''Pending'' \<Longrightarrow>
           LoanContract_ApproveLoan stub [loanID, lenderID] =
             (Success None, stub\<lparr>world := (world stub)(loanID \<mapsto> JSON
                (loan\<lparr>LenderID := lenderID, Status := ''Approved'',
                      AuditHistory := AuditHistory loan @ [''Loan Approved'']\<rparr>))\<rparr>)"
    and "Status loan = ''Approved'' \<Longrightarrow>
           LoanContract_DisburseLoan stub [loanID, disbursementDate] =
             (Success None, stub\<lparr>world := (world stub)(loanID \<mapsto> JSON
                (loan\<lparr>Status := ''Active'', DisbursementDate := disbursementDate,
                      AuditHistory := AuditHistory loan @ [''Loan Disbursed'']\<rparr>))\<rparr>)"
    and "Status loan = ''Active'' \<Longrightarrow> ParseFloat lib a = Some r \<Longrightarrow>
           RemainingBalance loan - r \<le> 0 \<Longrightarrow>
           LoanContract_RepayLoan lib stub [loanID, a] =
             (Success None, stub\<lparr>world := (world stub)(loanID \<mapsto> JSON
                (loan\<lparr>RemainingBalance := RemainingBalance loan - r, Status := ''Repaid'',
                      AuditHistory := AuditHistory loan @
                        [''Repayment of '' @ Sprintf_f lib r @ '' made'']\<rparr>))\<rparr>)"
    and "Status loan = ''Active'' \<Longrightarrow> ParseFloat lib a = Some r \<Longrightarrow>
           0 < RemainingBalance loan - r \<Longrightarrow>
           LoanContract_RepayLoan lib stub [loanID, a] =
             (Success None, stub\<lparr>world := (world stub)(loanID \<mapsto> JSON
                (loan\<lparr>RemainingBalance := RemainingBalance loan - r,
                      AuditHistory := AuditHistory loan @
                        [''Repayment of '' @ Sprintf_f lib r @ '' made'']\<rparr>))\<rparr>)"
    and "Status loan = ''Active'' \<Longrightarrow>
           LoanContract_MarkAsDefaulted stub [loanID] =
             (Success None, stub\<lparr>world := (world stub)(loanID \<mapsto> JSON
                (loan\<lparr>Defaulted := True, Status := ''Defaulted'',
                      AuditHistory := AuditHistory loan @ [''Loan Defaulted'']\<rparr>))\<rparr>)"
    and "Status loan = ''Pending'' \<or> Status loan = ''Approved'' \<Longrightarrow>
           LoanContract_AddCollateral stub [loanID, collateral] =
             (Success None, stub\<lparr>world := (world stub)(loanID \<mapsto> JSON
                (loan\<lparr>Collateral := collateral,
                      AuditHistory := AuditHistory loan @
                        [''Collateral added: '' @ collateral]\<rparr>))\<rparr>)"
  using assms
  by (auto simp: LoanContract_ApproveLoan_def LoanContract_DisburseLoan_def
      LoanContract_RepayLoan_def LoanContract_MarkAsDefaulted_def
      LoanContract_AddCollateral_def GetState_def op_simps split: option.splits)

text \<open>
  The end-to-end scenario succeeds at every step and leaves the loan \<open>Repaid\<close> with
  balance 0 and the three entries "Loan Approved", "Loan Disbursed" and the repayment
  entry, in that order.
\<close>

lemma end_to_end_result:
  "fst (Invoke_all stdlib empty_stub end_to_end) =
     [Success None, Success None, Success None, Success None] \<and>
   stored (snd (Invoke_all stdlib empty_stub end_to_end)) ''L1'' =
     Some \<lparr>LoanID = ''L1'', BorrowerID = ''B1'', LenderID = ''LEN1'', Amount = 5000,
           InterestRate = 0, Duration = 12, Status = ''Repaid'',
           DisbursementDate = ''2024-01-01'', RepaymentDue = 0,
           RemainingBalance = 0, Collateral = [], Defaulted = False,
           AuditHistory = [''Loan Approved'', ''Loan Disbursed'',
             ''Repayment of 5000.000000 made'']\<rparr>"
  by (simp add: end_to_end_def run_simps)

text \<open>
  Claim C6, at a loan that has a history. A loan is requested, given a collateral and
  approved: its history holds the two entries, in order. \<open>RequestLoan\<close> under the same
  key then succeeds, and the history stored under the key is empty: the two entries
  have been removed.
\<close>

theorem LoanContract_RequestLoan_wipes_history:
  "fst (Invoke_all stdlib empty_stub request_over_history) =
     [Success None, Success None, Success None, Success None] \<and>
   map_option AuditHistory
     (stored (snd (Invoke_all stdlib empty_stub (butlast request_over_history))) ''L1'') =
     Some [''Collateral added: house'', ''Loan Approved''] \<and>
   map_option AuditHistory
     (stored (snd (Invoke_all stdlib empty_stub request_over_history)) ''L1'') =
     Some []"
  by (simp add: request_over_history_def run_simps LoanContract_AddCollateral_def)

section \<open>Collateral\<close>

text \<open>
  Claim C7. For a loan that \<open>GetState\<close> finds under the key: in status \<open>Active\<close>,
  \<open>Repaid\<close> or \<open>Defaulted\<close>, \<open>AddCollateral\<close> answers "Loan cannot accept collateral
  in the current state" and leaves the stub, and with it the collateral, as it was; when
  \<open>AddCollateral\<close> succeeds, the status was \<open>Pending\<close> or \<open>Approved\<close> and the stored record
  is the old one with the new collateral and one more history entry; and in those two
  statuses it does succeed when the store accepts the write.
\<close>

theorem AddCollateral_state_guard:
  assumes "GetState stub loanID = Inr (Some (JSON loan))"
  shows
    "(Status loan = ''Active'' \<or> Status loan = ''Repaid'' \<or> Status loan = ''Defaulted'' \<longrightarrow>
        LoanContract_AddCollateral stub [loanID, collateral] =
          (Error ''Loan cannot accept collateral in the current state'', stub)) \<and>
     (\<forall>p stub'. LoanContract_AddCollateral stub [loanID, collateral] = (Success p, stub') \<longrightarrow>
        (Status loan = ''Pending'' \<or> Status loan = ''Approved'') \<and>
        stored stub' loanID =
          Some (loan\<lparr>Collateral := collateral,
                     AuditHistory := AuditHistory loan @ [''Collateral added: '' @ collateral]\<rparr>)) \<and>
     ((Status loan = ''Pending'' \<or> Status loan = ''Approved'') \<and> putErr stub loanID = None \<longrightarrow>
        fst (LoanContract_AddCollateral stub [loanID, collateral]) = Success None)"
  using assms
  by (auto simp: LoanContract_AddCollateral_def GetState_def stored_def op_simps
      split: op_splits)

theorem AddCollateral_state_guard_witness:
  "GetState (ledger_with ''L1'' (sample_loan ''Active'')) ''L1'' =
     Inr (Some (JSON (sample_loan ''Active''))) \<and>
   LoanContract_AddCollateral (ledger_with ''L1'' (sample_loan ''Active'')) [''L1'', ''house''] =
     (Error ''Loan cannot accept collateral in the current state'',
      ledger_with ''L1'' (sample_loan ''Active'')) \<and>
   GetState (ledger_with ''L1'' (sample_loan ''Approved'')) ''L1'' =
     Inr (Some (JSON (sample_loan ''Approved''))) \<and>
   fst (LoanContract_AddCollateral (ledger_with ''L1'' (sample_loan ''Approved''))
     [''L1'', ''house'']) = Success None"
proof -
  have a: "GetState (ledger_with ''L1'' (sample_loan ''Active'')) ''L1'' =
      Inr (Some (JSON (sample_loan ''Active'')))"
    by (simp add: GetState_def ledger_with_def empty_stub_def)
  have b: "GetState (ledger_with ''L1'' (sample_loan ''Approved'')) ''L1'' =
      Inr (Some (JSON (sample_loan ''Approved'')))"
    by (simp add: GetState_def ledger_with_def empty_stub_def)
  have s: "Status (sample_loan ''Active'') = ''Active''"
      "Status (sample_loan ''Approved'') = ''Approved''"
      "putErr (ledger_with ''L1'' (sample_loan ''Approved'')) ''L1'' = None"
    by (simp_all add: sample_loan_def ledger_with_def empty_stub_def)
  from AddCollateral_state_guard [OF a, of "''house''"]
       AddCollateral_state_guard [OF b, of "''house''"] a b s
  show ?thesis by simp
qed

section \<open>Approving twice\<close>

text \<open>
  Claim C8. After a successful \<open>RequestLoan\<close>, on a store whose reads of that key do
  not fail, a first \<open>ApproveLoan\<close> succeeds and stores the lender and the status
  \<open>Approved\<close>; a second \<open>ApproveLoan\<close>, for any lender, answers "Loan is not in Pending
  status" and returns the stub the first call left.
\<close>

theorem ApproveLoan_twice:
  assumes "LoanContract_RequestLoan lib stub args = (Success p, s1)"
      and "getErr stub (args ! 0) = None"
  shows "fst (LoanContract_ApproveLoan s1 [args ! 0, lenderID]) = Success None \<and>
         map_option LenderID
           (stored (snd (LoanContract_ApproveLoan s1 [args ! 0, lenderID])) (args ! 0)) =
           Some lenderID \<and>
         map_option Status
           (stored (snd (LoanContract_ApproveLoan s1 [args ! 0, lenderID])) (args ! 0)) =
           Some ''Approved'' \<and>
         LoanContract_ApproveLoan (snd (LoanContract_ApproveLoan s1 [args ! 0, lenderID]))
           [args ! 0, lenderID'] =
           (Error ''Loan is not in Pending status'',
            snd (LoanContract_ApproveLoan s1 [args ! 0, lenderID]))"
  using assms(1)
proof (cases rule: RequestLoan_success)
  case (1 amount duration)
  with assms(2) show ?thesis
    by (simp add: LoanContract_ApproveLoan_def op_simps stored_def)
qed

theorem ApproveLoan_twice_witness:
  "LoanContract_RequestLoan stdlib empty_stub [''L1'', ''B1'', ''1000'', ''12''] =
     (Success None, ledger_with ''L1'' ((sample_loan ''Pending'')\<lparr>LenderID := []\<rparr>)) \<and>
   fst (LoanContract_ApproveLoan
          (ledger_with ''L1'' ((sample_loan ''Pending'')\<lparr>LenderID := []\<rparr>))
          [''L1'', ''LEN1'']) = Success None \<and>
   fst (LoanContract_ApproveLoan
          (snd (LoanContract_ApproveLoan
             (ledger_with ''L1'' ((sample_loan ''Pending'')\<lparr>LenderID := []\<rparr>))
             [''L1'', ''LEN1'']))
          [''L1'', ''LEN2'']) = Error ''Loan is not in Pending status''"
proof -
  have run: "LoanContract_RequestLoan stdlib empty_stub [''L1'', ''B1'', ''1000'', ''12''] =
     (Success None, ledger_with ''L1'' ((sample_loan ''Pending'')\<lparr>LenderID := []\<rparr>))"
    by (simp add: LoanContract_RequestLoan_def save_Loan_eq Let_def ParseFloat_1000 Atoi_12
        ledger_with_def empty_stub_def sample_loan_def)
  have get: "getErr (empty_stub :: Loan ChaincodeStub) ([''L1'', ''B1'', ''1000'', ''12''] ! 0) = None"
    by (simp add: empty_stub_def)
  from ApproveLoan_twice [OF run get, of "''LEN1''" "''LEN2''"] run show ?thesis
    by simp
qed

text \<open>The same holds of \<open>SmartContract\<close>, whose \<open>RequestLoan\<close> has already read the key.\<close>

lemma SmartContract_ApproveLoan_twice:
  assumes "SmartContract_RequestLoan stub loanID borrowerID amount interestRate duration =
             (None, s1)"
  shows "fst (SmartContract_ApproveLoan s1 loanID lenderID) = None \<and>
         map_option SC_LenderID
           (stored (snd (SmartContract_ApproveLoan s1 loanID lenderID)) loanID) =
           Some lenderID \<and>
         map_option SC_Status
           (stored (snd (SmartContract_ApproveLoan s1 loanID lenderID)) loanID) =
           Some ''Approved'' \<and>
         SmartContract_ApproveLoan (snd (SmartContract_ApproveLoan s1 loanID lenderID))
           loanID lenderID' =
           (Some (''loan with ID '' @ loanID @ '' is not in Pending status''),
            snd (SmartContract_ApproveLoan s1 loanID lenderID))"
  using assms
  by (auto simp: SmartContract_RequestLoan_def SmartContract_ApproveLoan_def GetState_def
      PutState_def json_Marshal_def json_Unmarshal_def stored_def Let_def
      split: sum.splits option.splits)

end
